theory Spec2Isabelle
  imports Complex_Main "HOL-Library.Multiset"
begin

section \<open>Tables\<close>

text \<open>
  A pandas DataFrame as the two scripts use it: the column names, the dtype of every
  column and the rows.  A cell is a number, a missing value or a piece of text.  Numbers
  are reals: the claims below only add labels that are 0 or 1, count zeros and compare
  correlation values, all of which floating point does exactly.
\<close>

datatype cell = Num real | NaN | Txt string

datatype dtype = Float64 | Int64 | Object

record dataframe =
  columns :: "string list"
  dtypes :: "dtype list"
  rows :: "cell list list"

definition len :: "dataframe \<Rightarrow> nat" where
  "len df = length (rows df)"

definition n_columns :: "dataframe \<Rightarrow> nat" where
  "n_columns df = length (columns df)"

datatype exn =
    FileNotFoundError string
  | ValueError string
  | ParserError string
  | NameError string
  | KeyError string
  | LibraryError string

fun index_of :: "string \<Rightarrow> string list \<Rightarrow> nat option" where
  "index_of x [] = None"
| "index_of x (y # ys) = (if x = y then Some 0 else map_option Suc (index_of x ys))"

definition cell_at :: "cell list \<Rightarrow> nat \<Rightarrow> cell" where
  "cell_at r i = (if i < length r then r ! i else NaN)"

text \<open>\<^verbatim>\<open>df[name]\<close>: the cells of the column, KeyError when there is no such column.\<close>

definition getitem :: "dataframe \<Rightarrow> string \<Rightarrow> exn + cell list" where
  "getitem df name =
     (case index_of name (columns df) of
        None \<Rightarrow> Inl (KeyError name)
      | Some i \<Rightarrow> Inr (map (\<lambda>r. cell_at r i) (rows df)))"

text \<open>\<^verbatim>\<open>df.select_dtypes(include=[np.number]).columns.tolist()\<close>\<close>

definition is_number :: "dtype \<Rightarrow> bool" where
  "is_number t = (t = Float64 \<or> t = Int64)"

definition numeric_columns :: "dataframe \<Rightarrow> string list" where
  "numeric_columns df = map fst (filter (\<lambda>(c, t). is_number t) (zip (columns df) (dtypes df)))"

text \<open>
  A Series of floats with an index of names (one column of a correlation matrix), and a
  matrix as its columns in order.  \<open>None\<close> is a NaN entry.
\<close>

type_synonym series = "(string \<times> real option) list"

type_synonym matrix = "(string \<times> series) list"

section \<open>The world outside the scripts\<close>

text \<open>
  The scripts are sequences of calls into pandas, seaborn and matplotlib.  What such a
  call computes is not in the repository, so a run is taken relative to an environment:
  for every call site whether the call raises in this run, the correlation matrix pandas
  computes, the dtype its reader infers, and its random generator.  Every theorem below
  holds for all environments.

  A call site is one of the three reports written in front of the label test, or an
  operation inside one of the twelve try blocks of \<^verbatim>\<open>perform_eda\<close>: the computation
  of a statistic, the drawing of the figure, the two ways \<^verbatim>\<open>save_plot\<close> saves it, a
  direct \<^verbatim>\<open>savefig\<close>, the writing of a CSV file.
\<close>

datatype report = InfoReport | DescribeReport | MissingReport

datatype step =
    TargetDistribution | Histograms | CorrelationMatrix | MissingValueHeatmap
  | CorrWithTarget | KdePlots | Boxplots | Pairplot | FeatureVariance
  | Scatter | OutlierBoxplots | SummaryOverview

datatype libop = Compute | Draw | FigSavefig | PltSavefig | Savefig | ToCsv

datatype site = Before report | Within step libop

datatype rng = RandomState nat | GlobalState nat

record env =
  raises :: "site \<Rightarrow> exn option"
  corr_value :: "dataframe \<Rightarrow> matrix"
  infer_dtype :: "cell list \<Rightarrow> dtype"
  rand_choice :: "rng \<Rightarrow> nat \<Rightarrow> nat \<Rightarrow> nat list"
  global_rng :: nat
  object_sum :: "cell list \<Rightarrow> exn + int"

text \<open>What a written file holds, as far as the scripts decide it.\<close>

datatype content =
    Rendered
  | SeriesFile series
  | MatrixFile matrix
  | SummaryFile nat nat int nat

text \<open>What a run prints, reads and samples, in order.\<close>

datatype event =
    Loading int
  | LoadingFrom string
  | ReadCsv string
  | LoaderLoaded nat nat
  | Head "cell list list"
  | Loaded nat nat
  | Saved string
  | NoLabel
  | Using "string list"
  | Err string exn
  | Traceback exn
  | CouldNotSave string exn
  | Sample nat "nat option" "cell list list option"
  | Complete string

text \<open>
  The state of a run: the files written, the trace, and the two locals of
  \<^verbatim>\<open>perform_eda\<close> that are assigned inside one try block and read in a later one
  (\<open>None\<close>: not yet bound).
\<close>

record state =
  artifacts :: "(string \<times> content) list"
  trace :: "event list"
  corr :: "matrix option"
  sample_n :: "nat option"

type_synonym 'a action = "state \<Rightarrow> state \<times> (exn + 'a)"

definition pure :: "'a \<Rightarrow> 'a action" where
  "pure x s = (s, Inr x)"

definition throw :: "exn \<Rightarrow> 'a action" where
  "throw e s = (s, Inl e)"

definition bind :: "'a action \<Rightarrow> ('a \<Rightarrow> 'b action) \<Rightarrow> 'b action" where
  "bind m f s = (case m s of (s', Inl e) \<Rightarrow> (s', Inl e) | (s', Inr x) \<Rightarrow> f x s')"

fun block :: "unit action list \<Rightarrow> unit action" where
  "block [] s = (s, Inr ())"
| "block (c # cs) s = (case c s of (s', Inl e) \<Rightarrow> (s', Inl e) | (s', Inr _) \<Rightarrow> block cs s')"

text \<open>\<^verbatim>\<open>try: body  except Exception as e: handler(e)\<close>\<close>

definition try_except :: "unit action \<Rightarrow> (exn \<Rightarrow> unit action) \<Rightarrow> unit action" where
  "try_except body handler s =
     (case body s of (s', Inl e) \<Rightarrow> handler e s' | (s', Inr _) \<Rightarrow> (s', Inr ()))"

definition print :: "event \<Rightarrow> unit action" where
  "print ev s = (s\<lparr>trace := trace s @ [ev]\<rparr>, Inr ())"

text \<open>A library call that only computes or draws.\<close>

definition lib_call :: "env \<Rightarrow> site \<Rightarrow> unit action" where
  "lib_call E c s = (case raises E c of Some e \<Rightarrow> (s, Inl e) | None \<Rightarrow> (s, Inr ()))"

text \<open>
  A library call that writes a file: it completes and the file is there, or it raises and
  nothing is written.
\<close>

definition write_file :: "env \<Rightarrow> site \<Rightarrow> string \<Rightarrow> content \<Rightarrow> unit action" where
  "write_file E c path data s =
     (case raises E c of
        Some e \<Rightarrow> (s, Inl e)
      | None \<Rightarrow> (s\<lparr>artifacts := artifacts s @ [(path, data)]\<rparr>, Inr ()))"

text \<open>
  \<^verbatim>\<open>df.sample(n, random_state=...)\<close>: without replacement, so a sample larger than the
  table raises ValueError.  A given \<open>random_state\<close> seeds a fresh generator; without one
  pandas draws from the global generator of the process.
\<close>

definition take_rows :: "cell list list \<Rightarrow> nat list \<Rightarrow> cell list list" where
  "take_rows rs locs = concat (map (\<lambda>i. if i < length rs then [rs ! i] else []) locs)"

definition df_sample :: "env \<Rightarrow> dataframe \<Rightarrow> nat \<Rightarrow> nat option \<Rightarrow> dataframe action" where
  "df_sample E df n random_state s =
     (if len df < n
      then (s\<lparr>trace := trace s @ [Sample n random_state None]\<rparr>,
            Inl (ValueError ''Cannot take a larger sample than population''))
      else
        let g = (case random_state of
                   Some seed \<Rightarrow> RandomState seed
                 | None \<Rightarrow> GlobalState (global_rng E));
            picked = take_rows (rows df) (rand_choice E g (len df) n)
        in (s\<lparr>trace := trace s @ [Sample n random_state (Some picked)]\<rparr>,
            Inr (df\<lparr>rows := picked\<rparr>)))"

definition discard :: "'a action \<Rightarrow> unit action" where
  "discard m = bind m (\<lambda>_. pure ())"

section \<open>higgs\_loader.py\<close>

definition low_level :: "string list" where
  "low_level =
     [''lepton_pT'', ''lepton_eta'', ''lepton_phi'',
      ''missing_energy_magnitude'', ''missing_energy_phi'',
      ''jet1_pt'', ''jet1_eta'', ''jet1_phi'', ''jet1_b-tag'',
      ''jet2_pt'', ''jet2_eta'', ''jet2_phi'', ''jet2_b-tag'',
      ''jet3_pt'', ''jet3_eta'', ''jet3_phi'', ''jet3_b-tag'',
      ''jet4_pt'', ''jet4_eta'', ''jet4_phi'', ''jet4_b-tag'']"

definition high_level :: "string list" where
  "high_level = [''m_jj'', ''m_jjj'', ''m_lv'', ''m_jlv'', ''m_bb'', ''m_wbb'', ''m_wwbb'']"

definition higgs_columns :: "string list" where
  "higgs_columns = [''label''] @ low_level @ high_level"

text \<open>
  A delimited file without header is the list of its data rows, each the list of its
  fields.  \<^verbatim>\<open>pd.read_csv(path, names=..., nrows=...)\<close> is pandas, not this repository;
  it is modelled from its documentation: a negative \<open>nrows\<close> is refused, at most
  \<open>nrows\<close> rows are read from the start, the names are applied by position, a short row
  is filled with missing values.  A row with more fields than names is taken as a parse
  failure here (pandas moves leading extra fields into the index when the first row has
  them); the theorems about the loader are about files without such rows.
\<close>

type_synonym csv_file = "cell list list"

type_synonym filesystem = "string \<Rightarrow> csv_file option"

definition pad_row :: "nat \<Rightarrow> cell list \<Rightarrow> cell list" where
  "pad_row w r = r @ replicate (w - length r) NaN"

definition parse_rows :: "env \<Rightarrow> string list \<Rightarrow> cell list list \<Rightarrow> exn + dataframe" where
  "parse_rows E names recs =
     (if list_ex (\<lambda>r. length names < length r) recs
      then Inl (ParserError ''Error tokenizing data'')
      else
        let body = map (pad_row (length names)) recs
        in Inr \<lparr>columns = names,
                dtypes = map (\<lambda>i. infer_dtype E (map (\<lambda>r. cell_at r i) body)) [0..<length names],
                rows = body\<rparr>)"

definition read_csv :: "env \<Rightarrow> csv_file \<Rightarrow> string list \<Rightarrow> int option \<Rightarrow> exn + dataframe" where
  "read_csv E file names nrows =
     (case nrows of
        None \<Rightarrow> parse_rows E names file
      | Some m \<Rightarrow>
          if m < 0 then Inl (ValueError ''nrows must be an integer >=0'')
          else parse_rows E names (take (nat m) file))"

definition load_data :: "env \<Rightarrow> filesystem \<Rightarrow> string \<Rightarrow> int option \<Rightarrow> dataframe action" where
  "load_data E fs file_path nrows =
     (case fs file_path of
        None \<Rightarrow> throw (FileNotFoundError file_path)
      | Some file \<Rightarrow>
          bind (print (LoadingFrom file_path)) (\<lambda>_.
          bind (print (ReadCsv file_path)) (\<lambda>_.
          case read_csv E file higgs_columns nrows of
            Inl e \<Rightarrow> throw e
          | Inr df \<Rightarrow>
              bind (print (LoaderLoaded (len df) (n_columns df))) (\<lambda>_.
              bind (print (Head (take 10 (rows df)))) (\<lambda>_.
              pure df)))))"

definition default_path :: string where
  "default_path = ''HIGGS.csv.gz''"

section \<open>EDA\_UCI\_HIGGS\_DATASET.py\<close>

definition OUTPUT_DIR :: string where
  "OUTPUT_DIR = ''results/eda''"

definition out_file :: "string \<Rightarrow> string" where
  "out_file name = OUTPUT_DIR @ ''/'' @ name"

text \<open>
  \<^verbatim>\<open>save_plot\<close>: \<^verbatim>\<open>fig.savefig\<close>, on any exception \<^verbatim>\<open>plt.savefig\<close>, on any
  exception of that a message.  It never raises.  The figure is named by the step that
  drew it.
\<close>

definition save_plot :: "env \<Rightarrow> step \<Rightarrow> string \<Rightarrow> unit action" where
  "save_plot E fig path =
     try_except (write_file E (Within fig FigSavefig) path Rendered)
       (\<lambda>_. try_except (write_file E (Within fig PltSavefig) path Rendered)
          (\<lambda>e. print (CouldNotSave path e)))"

subsection \<open>Feature selection\<close>

definition default_features :: "string list" where
  "default_features =
     [''lepton_pT'', ''lepton_eta'', ''missing_energy_magnitude'',
      ''jet1_pt'', ''jet1_b-tag'', ''m_jj'', ''m_wwbb'']"

definition select_features :: "dataframe \<Rightarrow> string list" where
  "select_features df =
     (let features = filter (\<lambda>f. f \<in> set (columns df)) default_features
      in if features = []
         then take 7 (filter (\<lambda>c. c \<noteq> ''label'') (numeric_columns df))
         else features)"

subsection \<open>Correlation with the target\<close>

text \<open>
  \<^verbatim>\<open>corr["label"].drop("label", errors="ignore").sort_values(ascending=False)\<close>.
  pandas sorts the entries that are numbers and puts the NaN entries last; entries of
  equal value are kept here in their order, which pandas' default sort does not promise.
\<close>

definition matrix_columns :: "matrix \<Rightarrow> string list" where
  "matrix_columns m = map fst m"

definition drop_label :: "series \<Rightarrow> string \<Rightarrow> series" where
  "drop_label ser name = filter (\<lambda>(k, v). k \<noteq> name) ser"

definition numbered :: "series \<Rightarrow> (string \<times> real) list" where
  "numbered ser = concat (map (\<lambda>(k, v). case v of Some x \<Rightarrow> [(k, x)] | None \<Rightarrow> []) ser)"

definition sort_values_desc :: "series \<Rightarrow> series" where
  "sort_values_desc ser =
     map (\<lambda>(k, v). (k, Some v)) (sort_key (\<lambda>(k, v). - v) (numbered ser))
     @ filter (\<lambda>(k, v). v = None) ser"

definition label_corr :: "series \<Rightarrow> series" where
  "label_corr col = sort_values_desc (drop_label col ''label'')"

subsection \<open>Sample sizes\<close>

definition kde_sample_n :: "dataframe \<Rightarrow> nat" where
  "kde_sample_n df = min 20000 (max 2000 (len df div 50))"

subsection \<open>The summary\<close>

text \<open>
  \<^verbatim>\<open>int(df["label"].sum())\<close>: the sum skips missing values, \<^verbatim>\<open>int\<close> truncates towards
  zero.  What pandas makes of a column holding text is left to the environment.
\<close>

definition is_text :: "cell \<Rightarrow> bool" where
  "is_text c = (case c of Txt _ \<Rightarrow> True | _ \<Rightarrow> False)"

definition cell_value :: "cell \<Rightarrow> real" where
  "cell_value c = (case c of Num x \<Rightarrow> x | _ \<Rightarrow> 0)"

definition py_int :: "real \<Rightarrow> int" where
  "py_int x = (if 0 \<le> x then \<lfloor>x\<rfloor> else \<lceil>x\<rceil>)"

definition sum_int :: "env \<Rightarrow> cell list \<Rightarrow> exn + int" where
  "sum_int E cs =
     (if list_ex is_text cs then object_sum E cs
      else Inr (py_int (sum_list (map cell_value cs))))"

text \<open>\<^verbatim>\<open>int((df["label"] == 0).sum())\<close>\<close>

definition count_zero :: "cell list \<Rightarrow> nat" where
  "count_zero cs = length (filter (\<lambda>c. c = Num 0) cs)"

subsection \<open>The twelve guarded steps\<close>

definition get_corr :: "matrix action" where
  "get_corr s = (case corr s of None \<Rightarrow> (s, Inl (NameError ''corr'')) | Some m \<Rightarrow> (s, Inr m))"

definition get_sample_n :: "nat action" where
  "get_sample_n s =
     (case sample_n s of None \<Rightarrow> (s, Inl (NameError ''sample_n'')) | Some n \<Rightarrow> (s, Inr n))"

definition set_corr :: "matrix \<Rightarrow> unit action" where
  "set_corr m s = (s\<lparr>corr := Some m\<rparr>, Inr ())"

definition set_sample_n :: "nat \<Rightarrow> unit action" where
  "set_sample_n n s = (s\<lparr>sample_n := Some n\<rparr>, Inr ())"

definition df_corr :: "env \<Rightarrow> dataframe \<Rightarrow> matrix action" where
  "df_corr E df = bind (lib_call E (Within CorrelationMatrix Compute)) (\<lambda>_. pure (corr_value E df))"

definition lift :: "exn + 'a \<Rightarrow> 'a action" where
  "lift r = (case r of Inl e \<Rightarrow> throw e | Inr x \<Rightarrow> pure x)"

text \<open>The body of each try block.\<close>

fun body :: "env \<Rightarrow> dataframe \<Rightarrow> string list \<Rightarrow> step \<Rightarrow> unit action" where
  "body E df features TargetDistribution =
     block [lib_call E (Within TargetDistribution Draw),
            save_plot E TargetDistribution (out_file ''1_target_distribution.png'')]"
| "body E df features Histograms =
     block [lib_call E (Within Histograms Draw),
            save_plot E Histograms (out_file ''2_feature_histograms.png'')]"
| "body E df features CorrelationMatrix =
     bind (df_corr E df) (\<lambda>m.
     block [set_corr m,
            lib_call E (Within CorrelationMatrix Draw),
            save_plot E CorrelationMatrix (out_file ''3_correlation_matrix.png''),
            write_file E (Within CorrelationMatrix ToCsv)
              (out_file ''3_correlation_matrix.csv'') (MatrixFile m)])"
| "body E df features MissingValueHeatmap =
     block [lib_call E (Within MissingValueHeatmap Draw),
            save_plot E MissingValueHeatmap (out_file ''4_missing_value_heatmap.png'')]"
| "body E df features CorrWithTarget =
     bind get_corr (\<lambda>m.
     case map_of m ''label'' of
       None \<Rightarrow> pure ()
     | Some col \<Rightarrow>
         block [lib_call E (Within CorrWithTarget Draw),
                save_plot E CorrWithTarget (out_file ''5_corr_with_target.png''),
                write_file E (Within CorrWithTarget ToCsv)
                  (out_file ''5_corr_with_target.csv'') (SeriesFile (label_corr col))])"
| "body E df features KdePlots =
     block [set_sample_n (kde_sample_n df),
            bind get_sample_n (\<lambda>n. discard (df_sample E df n (Some 42))),
            lib_call E (Within KdePlots Draw),
            save_plot E KdePlots (out_file ''6_kde_plots.png'')]"
| "body E df features Boxplots =
     block [lib_call E (Within Boxplots Draw),
            save_plot E Boxplots (out_file ''7_boxplots_by_label.png'')]"
| "body E df features Pairplot =
     bind get_sample_n (\<lambda>n.
     let pair_size = min 5000 n in
     block [discard (df_sample E df pair_size (Some 42)),
            lib_call E (Within Pairplot Draw),
            write_file E (Within Pairplot Savefig) (out_file ''8_pairplot_sample.png'') Rendered])"
| "body E df features FeatureVariance =
     block [lib_call E (Within FeatureVariance Compute),
            lib_call E (Within FeatureVariance Draw),
            save_plot E FeatureVariance (out_file ''9_feature_variance.png''),
            write_file E (Within FeatureVariance ToCsv)
              (out_file ''9_feature_variance.csv'') Rendered]"
| "body E df features Scatter =
     (if ''lepton_pT'' \<in> set (columns df) \<and> ''missing_energy_magnitude'' \<in> set (columns df)
      then bind get_sample_n (\<lambda>n.
           block [discard (df_sample E df (min 15000 n) (Some 42)),
                  lib_call E (Within Scatter Draw),
                  save_plot E Scatter (out_file ''10_jointplot_scatter.png'')])
      else pure ())"
| "body E df features OutlierBoxplots =
     block [lib_call E (Within OutlierBoxplots Draw),
            save_plot E OutlierBoxplots (out_file ''11_outlier_iqr.png'')]"
| "body E df features SummaryOverview =
     bind (lift (getitem df ''label'')) (\<lambda>label.
     bind (lift (sum_int E label)) (\<lambda>positive.
     write_file E (Within SummaryOverview ToCsv) (out_file ''12_summary_overview.csv'')
       (SummaryFile (len df) (n_columns df) positive (count_zero label))))"

text \<open>The message each except clause prints in front of the exception.\<close>

fun message :: "step \<Rightarrow> string" where
  "message TargetDistribution = ''Error while plotting target distribution:''"
| "message Histograms = ''Error while creating histograms:''"
| "message CorrelationMatrix = ''Error computing correlation matrix:''"
| "message MissingValueHeatmap = ''Error creating missing-value heatmap:''"
| "message CorrWithTarget = ''Error while computing correlation with target:''"
| "message KdePlots = ''Error creating KDE plots:''"
| "message Boxplots = ''Error creating boxplots:''"
| "message Pairplot = ''Pairplot skipped:''"
| "message FeatureVariance = ''Error computing feature variance:''"
| "message Scatter = ''Error creating scatter plot:''"
| "message OutlierBoxplots = ''Error computing outliers:''"
| "message SummaryOverview = ''Error saving summary file:''"

definition run_step :: "env \<Rightarrow> dataframe \<Rightarrow> string list \<Rightarrow> step \<Rightarrow> unit action" where
  "run_step E df features t =
     try_except (body E df features t) (\<lambda>e. print (Err (message t) e))"

definition guarded_steps :: "step list" where
  "guarded_steps =
     [TargetDistribution, Histograms, CorrelationMatrix, MissingValueHeatmap,
      CorrWithTarget, KdePlots, Boxplots, Pairplot, FeatureVariance,
      Scatter, OutlierBoxplots, SummaryOverview]"

subsection \<open>perform\_eda\<close>

text \<open>
  The part of \<^verbatim>\<open>perform_eda\<close> after loading.  The three reports in front of the label
  test are outside any try block: an exception of theirs leaves the function.
\<close>

text \<open>
  \<^verbatim>\<open>df.describe().transpose().to_csv(...)\<close>: pandas refuses to describe a DataFrame
  without columns (ValueError) before anything is written.
\<close>

definition describe_to_csv :: "env \<Rightarrow> dataframe \<Rightarrow> string \<Rightarrow> unit action" where
  "describe_to_csv E df path =
     (if columns df = []
      then throw (ValueError ''Cannot describe a DataFrame without columns'')
      else write_file E (Before DescribeReport) path Rendered)"

definition eda_report :: "env \<Rightarrow> dataframe \<Rightarrow> unit action" where
  "eda_report E df =
     bind (block [print (Loaded (len df) (n_columns df)),
                  write_file E (Before InfoReport) (out_file ''0_info.txt'') Rendered,
                  print (Saved ''dataset info''),
                  describe_to_csv E df (out_file ''1_describe.csv''),
                  print (Saved ''summary statistics''),
                  write_file E (Before MissingReport) (out_file ''2_missing_values.csv'') Rendered,
                  print (Saved ''missing value report'')]) (\<lambda>_.
     if ''label'' \<notin> set (columns df) then print NoLabel
     else
       let features = select_features df
       in block ([print (Using features)]
                 @ map (run_step E df features) guarded_steps
                 @ [print (Complete OUTPUT_DIR)]))"

definition perform_eda :: "env \<Rightarrow> filesystem \<Rightarrow> int \<Rightarrow> unit action" where
  "perform_eda E fs nrows =
     bind (print (Loading nrows)) (\<lambda>_ s.
       case load_data E fs default_path (Some nrows) s of
         (s', Inl e) \<Rightarrow>
           block [print (Err ''Could not load dataset:'' e), print (Traceback e)] s'
       | (s', Inr df) \<Rightarrow> eda_report E df s')"

definition start :: state where
  "start = \<lparr>artifacts = [], trace = [], corr = None, sample_n = None\<rparr>"

section \<open>Notions for stating the properties\<close>

text \<open>
  The locals as a run binds them: \<open>corr\<close> by the correlation step, unless
  \<^verbatim>\<open>df.corr()\<close> raised, and \<open>sample_n\<close> by the first statement of the KDE step.
  \<open>alone\<close> is a guarded step run by itself from there, with nothing written or printed
  before it.
\<close>

definition entry :: "env \<Rightarrow> dataframe \<Rightarrow> state" where
  "entry E df =
     \<lparr>artifacts = [], trace = [],
      corr = (case raises E (Within CorrelationMatrix Compute) of
                None \<Rightarrow> Some (corr_value E df)
              | Some _ \<Rightarrow> None),
      sample_n = Some (kde_sample_n df)\<rparr>"

definition alone :: "env \<Rightarrow> dataframe \<Rightarrow> string list \<Rightarrow> step \<Rightarrow> state" where
  "alone E df features t = fst (run_step E df features t (entry E df))"

definition reads_ok :: "env \<Rightarrow> dataframe \<Rightarrow> step \<Rightarrow> state \<Rightarrow> bool" where
  "reads_ok E df t s =
     ((t = CorrWithTarget \<longrightarrow> corr s = corr (entry E df)) \<and>
      (t = Pairplot \<or> t = Scatter \<longrightarrow> sample_n s = sample_n (entry E df)))"

definition after_steps :: "env \<Rightarrow> dataframe \<Rightarrow> string list \<Rightarrow> state \<Rightarrow> state" where
  "after_steps E df features s =
     foldl (\<lambda>s t. fst (run_step E df features t s)) s guarded_steps"

text \<open>The three reports in front of the label test complete.\<close>

definition prelude_ok :: "env \<Rightarrow> bool" where
  "prelude_ok E =
     (raises E (Before InfoReport) = None \<and> raises E (Before DescribeReport) = None \<and>
      raises E (Before MissingReport) = None)"

definition prelude_files :: "(string \<times> content) list" where
  "prelude_files =
     [(out_file ''0_info.txt'', Rendered), (out_file ''1_describe.csv'', Rendered),
      (out_file ''2_missing_values.csv'', Rendered)]"

definition prelude_trace :: "dataframe \<Rightarrow> event list" where
  "prelude_trace df =
     [Loaded (len df) (n_columns df), Saved ''dataset info'', Saved ''summary statistics'',
      Saved ''missing value report'']"








text \<open>What step \<open>t\<close> needs from the table and from earlier steps to get to its end.\<close>

definition both_named :: "dataframe \<Rightarrow> bool" where
  "both_named df =
     (''lepton_pT'' \<in> set (columns df) \<and> ''missing_energy_magnitude'' \<in> set (columns df))"


text \<open>The sampling calls of a trace: size and seed, and the rows drawn.\<close>

fun sample_calls :: "event list \<Rightarrow> (nat \<times> nat option) list" where
  "sample_calls [] = []"
| "sample_calls (Sample n seed picked # evs) = (n, seed) # sample_calls evs"
| "sample_calls (ev # evs) = sample_calls evs"

fun sampled_rows :: "event list \<Rightarrow> cell list list option list" where
  "sampled_rows [] = []"
| "sampled_rows (Sample n seed picked # evs) = picked # sampled_rows evs"
| "sampled_rows (ev # evs) = sampled_rows evs"

text \<open>
  What a sampling call with seed 42 draws from the table: nothing when the table is
  smaller than the sample, else the rows the seeded generator picks.
\<close>

definition draw :: "env \<Rightarrow> dataframe \<Rightarrow> nat \<Rightarrow> cell list list option" where
  "draw E df n =
     (if len df < n then None
      else Some (take_rows (rows df) (rand_choice E (RandomState 42) (len df) n)))"



section \<open>Example inputs\<close>

definition example_matrix :: matrix where
  "example_matrix =
     [(''label'',
         [(''label'', Some 1), (''lepton_pT'', Some (1/5)), (''lepton_eta'', None),
          (''m_jj'', Some (1/2)), (''m_bb'', Some (-1))]),
      (''lepton_pT'',
         [(''label'', Some (1/5)), (''lepton_pT'', Some 1), (''lepton_eta'', None),
          (''m_jj'', Some 0), (''m_bb'', Some 0)])]"

definition quiet_env :: env where
  "quiet_env =
     \<lparr>raises = (\<lambda>c. None),
      corr_value = (\<lambda>df. example_matrix),
      infer_dtype = (\<lambda>cs. Float64),
      rand_choice = (\<lambda>g population n. [0..<n]),
      global_rng = 0,
      object_sum = (\<lambda>cs. Inl (LibraryError ''sum of text''))\<rparr>"



text \<open>Another process: a different global generator, and the histograms fail to draw.\<close>

definition other_env :: env where
  "other_env =
     quiet_env\<lparr>raises := (\<lambda>c. if c = Within Histograms Draw
                              then Some (LibraryError ''no display'')
                              else None),
               global_rng := 7\<rparr>"

definition two_row_table :: dataframe where
  "two_row_table =
     \<lparr>columns = [''label'', ''lepton_pT''],
      dtypes = [Float64, Float64],
      rows = [[Num 1, Num 10], [Num 0, Num 20]]\<rparr>"

definition big_table :: dataframe where
  "big_table =
     \<lparr>columns = [''label'', ''lepton_pT'', ''missing_energy_magnitude''],
      dtypes = [Float64, Float64, Float64],
      rows = replicate 2000 [Num 1, Num 10, Num 5]\<rparr>"


definition label_only_table :: dataframe where
  "label_only_table = \<lparr>columns = [''label''], dtypes = [Float64], rows = [[Num 1]]\<rparr>"

definition label_two_table :: dataframe where
  "label_two_table = \<lparr>columns = [''label''], dtypes = [Float64], rows = [[Num 2]]\<rparr>"



definition three_row_file :: csv_file where
  "three_row_file = [[Num 1, Num 10], [Num 0, Num 20], [Num 1, Num 30]]"

definition one_file_system :: filesystem where
  "one_file_system = (\<lambda>p. if p = ''HIGGS.csv.gz'' then Some three_row_file else None)"

definition empty_file_system :: filesystem where
  "empty_file_system = (\<lambda>p. None)"

section \<open>How the guarded steps compose\<close>

lemmas prims = pure_def throw_def bind_def try_except_def print_def lib_call_def write_file_def
  save_plot_def df_sample_def discard_def get_corr_def get_sample_n_def set_corr_def
  set_sample_n_def df_corr_def lift_def

lemma run_step_returns: "snd (run_step E df fs t s) = Inr ()"
  by (simp add: run_step_def try_except_def print_def split: prod.splits sum.splits)

lemma run_step_corr:
  "corr (fst (run_step E df fs t s)) =
     (if t = CorrelationMatrix \<and> raises E (Within CorrelationMatrix Compute) = None then Some (corr_value E df) else corr s)"
  by (cases t) (auto simp: run_step_def prims Let_def split: option.splits sum.splits prod.splits)

lemma run_step_sample_n:
  "sample_n (fst (run_step E df fs t s)) =
     (if t = KdePlots then Some (kde_sample_n df) else sample_n s)"
  by (cases t) (auto simp: run_step_def prims Let_def split: option.splits sum.splits prod.splits)

lemma run_step_artifacts:
  "reads_ok E df t s \<Longrightarrow>
   artifacts (fst (run_step E df fs t s)) = artifacts s @ artifacts (alone E df fs t)"
  by (cases t) (auto simp: reads_ok_def alone_def entry_def run_step_def prims Let_def split: option.splits sum.splits prod.splits)

lemma run_step_trace:
  "reads_ok E df t s \<Longrightarrow>
   trace (fst (run_step E df fs t s)) = trace s @ trace (alone E df fs t)"
  by (cases t) (auto simp: reads_ok_def alone_def entry_def run_step_def prims Let_def split: option.splits sum.splits prod.splits)


lemma block_run_steps:
  "block (map (run_step E df fs) ts @ rest) s =
     block rest (foldl (\<lambda>s t. fst (run_step E df fs t s)) s ts)"
proof (induction ts arbitrary: s)
  case Nil
  show ?case by simp
next
  case (Cons t ts)
  obtain s' where s': "run_step E df fs t s = (s', Inr ())"
    using run_step_returns [of E df fs t s] by (cases "run_step E df fs t s") auto
  show ?case using Cons [of s'] s' by simp
qed

lemma after_steps_artifacts:
  "corr s = None \<Longrightarrow>
   artifacts (after_steps E df fs s) =
     artifacts s @ concat (map (\<lambda>t. artifacts (alone E df fs t)) guarded_steps)"
  by (simp add: after_steps_def guarded_steps_def run_step_artifacts run_step_corr run_step_sample_n
        reads_ok_def entry_def split: option.splits)

lemma after_steps_trace:
  "corr s = None \<Longrightarrow>
   trace (after_steps E df fs s) =
     trace s @ concat (map (\<lambda>t. trace (alone E df fs t)) guarded_steps)"
  by (simp add: after_steps_def guarded_steps_def run_step_trace run_step_corr run_step_sample_n
        reads_ok_def entry_def split: option.splits)

lemma eda_report_with_label:
  assumes "''label'' \<in> set (columns df)" "prelude_ok E" "corr s = None"
  shows "snd (eda_report E df s) = Inr ()"
    and "artifacts (fst (eda_report E df s)) =
           artifacts s @ prelude_files @ concat (map (\<lambda>t. artifacts (alone E df (select_features df) t)) guarded_steps)"
    and "trace (fst (eda_report E df s)) =
           trace s @ prelude_trace df @ [Using (select_features df)]
           @ concat (map (\<lambda>t. trace (alone E df (select_features df) t)) guarded_steps)
           @ [Complete OUTPUT_DIR]"
proof -
  have c: "columns df \<noteq> []"
    using assms(1) by auto
  show "snd (eda_report E df s) = Inr ()"
    and "artifacts (fst (eda_report E df s)) =
           artifacts s @ prelude_files @ concat (map (\<lambda>t. artifacts (alone E df (select_features df) t)) guarded_steps)"
    and "trace (fst (eda_report E df s)) =
           trace s @ prelude_trace df @ [Using (select_features df)]
           @ concat (map (\<lambda>t. trace (alone E df (select_features df) t)) guarded_steps)
           @ [Complete OUTPUT_DIR]"
    using assms c
    by (simp_all add: eda_report_def describe_to_csv_def prelude_ok_def bind_def print_def
        write_file_def Let_def block_run_steps after_steps_def [symmetric] after_steps_artifacts
        after_steps_trace prelude_files_def prelude_trace_def)
qed


lemma corr_start: "corr start = None" "artifacts start = []" "trace start = []"
  by (simp_all add: start_def)

lemma sample_calls_append: "sample_calls (xs @ ys) = sample_calls xs @ sample_calls ys"
  by (induction xs rule: sample_calls.induct) simp_all

lemma sampled_rows_append: "sampled_rows (xs @ ys) = sampled_rows xs @ sampled_rows ys"
  by (induction xs rule: sampled_rows.induct) simp_all






lemma alone_sample_calls:
  "sample_calls (trace (alone E df fs t)) =
     (if t = KdePlots then [(kde_sample_n df, Some 42)]
      else if t = Pairplot then [(min 5000 (kde_sample_n df), Some 42)]
      else if t = Scatter \<and> both_named df then [(min 15000 (kde_sample_n df), Some 42)]
      else [])"
  by (cases t)
    (auto simp: both_named_def alone_def entry_def run_step_def prims Let_def
      split: option.splits sum.splits prod.splits)

lemma alone_sampled_rows:
  "sampled_rows (trace (alone E df fs t)) =
     (if t = KdePlots then [draw E df (kde_sample_n df)]
      else if t = Pairplot then [draw E df (min 5000 (kde_sample_n df))]
      else if t = Scatter \<and> both_named df then [draw E df (min 15000 (kde_sample_n df))]
      else [])"
  by (cases t)
    (auto simp: draw_def both_named_def alone_def entry_def run_step_def prims Let_def
      split: option.splits sum.splits prod.splits)

lemma report_trace:
  assumes "''label'' \<in> set (columns df)" "prelude_ok E"
  shows "trace (fst (eda_report E df start)) =
           prelude_trace df @ [Using (select_features df)]
           @ concat (map (\<lambda>t. trace (alone E df (select_features df) t)) guarded_steps)
           @ [Complete OUTPUT_DIR]"
  using eda_report_with_label(3) [OF assms corr_start(1)] by (simp add: corr_start)

lemma report_artifacts:
  assumes "''label'' \<in> set (columns df)" "prelude_ok E"
  shows "artifacts (fst (eda_report E df start)) =
           prelude_files @ concat (map (\<lambda>t. artifacts (alone E df (select_features df) t)) guarded_steps)"
  using eda_report_with_label(2) [OF assms corr_start(1)] by (simp add: corr_start)


lemma all_steps_guarded: "t \<in> set guarded_steps"
  by (cases t) (simp_all add: guarded_steps_def)

lemma report_sample_calls:
  assumes "''label'' \<in> set (columns df)" "prelude_ok E"
  shows "sample_calls (trace (fst (eda_report E df start))) =
           [(kde_sample_n df, Some 42), (min 5000 (kde_sample_n df), Some 42)]
           @ (if both_named df then [(min 15000 (kde_sample_n df), Some 42)] else [])"
  by (simp add: report_trace [OF assms] sample_calls_append prelude_trace_def guarded_steps_def
      alone_sample_calls)

lemma report_sampled_rows:
  assumes "''label'' \<in> set (columns df)" "prelude_ok E"
  shows "sampled_rows (trace (fst (eda_report E df start))) =
           [draw E df (kde_sample_n df), draw E df (min 5000 (kde_sample_n df))]
           @ (if both_named df then [draw E df (min 15000 (kde_sample_n df))] else [])"
  by (simp add: report_trace [OF assms] sampled_rows_append prelude_trace_def guarded_steps_def
      alone_sampled_rows)

section \<open>The loader and the front of the report\<close>

lemma length_default_features: "length default_features = 7"
  by (simp add: default_features_def)

lemma label_not_default: "''label'' \<notin> set default_features"
  by (simp add: default_features_def)

text \<open>
  C4, as the code has it.  The selected features never contain \<open>label\<close> and are at
  most seven.  They are empty exactly when the table has none of the preferred columns and
  no numeric column other than \<open>label\<close>.
\<close>

theorem select_features_bounded:
  "''label'' \<notin> set (select_features df) \<and> length (select_features df) \<le> 7 \<and>
   (select_features df = [] \<longleftrightarrow>
      (\<forall>f\<in>set default_features. f \<notin> set (columns df)) \<and>
      (\<forall>c\<in>set (numeric_columns df). c = ''label''))"
proof -
  let ?pref = "filter (\<lambda>f. f \<in> set (columns df)) default_features"
  let ?fallback = "take 7 (filter (\<lambda>c. c \<noteq> ''label'') (numeric_columns df))"
  have sel: "select_features df = (if ?pref = [] then ?fallback else ?pref)"
    by (simp add: select_features_def Let_def)
  have "length ?pref \<le> length default_features"
    by (rule length_filter_le)
  then have len_pref: "length ?pref \<le> 7"
    by (simp add: length_default_features)
  have no_label_pref: "''label'' \<notin> set ?pref"
    using label_not_default by simp
  have no_label_fb: "''label'' \<notin> set ?fallback"
    using in_set_takeD by fastforce
  have empty_pref: "?pref = [] \<longleftrightarrow> (\<forall>f\<in>set default_features. f \<notin> set (columns df))"
    by (simp add: filter_empty_conv)
  have empty_fb: "?fallback = [] \<longleftrightarrow> (\<forall>c\<in>set (numeric_columns df). c = ''label'')"
    by (simp add: filter_empty_conv)
  show ?thesis
    using sel len_pref no_label_pref no_label_fb empty_pref empty_fb by auto
qed

text \<open>
  The two-row table of the scenario has one preferred column, which is selected.
\<close>

theorem select_features_bounded_witness:
  "select_features two_row_table = [''lepton_pT''] \<and>
   ''label'' \<notin> set (select_features two_row_table) \<and>
   length (select_features two_row_table) \<le> 7 \<and>
   \<not> (\<forall>f\<in>set default_features. f \<notin> set (columns two_row_table))"
  using select_features_bounded [of two_row_table]
  by (simp add: select_features_def two_row_table_def default_features_def)

text \<open>
  C4 as stated fails: a table whose only column is \<open>label\<close> has a label column and
  an empty selection.
\<close>

theorem select_features_empty_counterexample:
  "''label'' \<in> set (columns label_only_table) \<and> select_features label_only_table = []"
  by (simp add: select_features_def label_only_table_def default_features_def
      numeric_columns_def is_number_def)

lemma length_low_level: "length low_level = 21"
  by (simp add: low_level_def)

lemma length_high_level: "length high_level = 7"
  by (simp add: high_level_def)

lemma length_higgs_columns: "length higgs_columns = 29"
  by (simp add: higgs_columns_def length_low_level length_high_level)

lemma parse_rows_ok:
  assumes "\<forall>r\<in>set recs. length r \<le> length names"
  shows "\<exists>df. parse_rows E names recs = Inr df \<and> columns df = names \<and>
           rows df = map (pad_row (length names)) recs"
proof -
  have "\<not> list_ex (\<lambda>r. length names < length r) recs"
    using assms by (auto simp: list_ex_iff)
  then show ?thesis
    by (simp add: parse_rows_def Let_def)
qed

lemma load_data_found:
  assumes "fs file_path = Some csv" "read_csv E csv higgs_columns nrows = Inr df"
  shows "load_data E fs file_path nrows s =
           (s\<lparr>trace := trace s @ [LoadingFrom file_path, ReadCsv file_path,
                                   LoaderLoaded (len df) (n_columns df), Head (take 10 (rows df))]\<rparr>,
            Inr df)"
  using assms by (simp add: load_data_def bind_def print_def pure_def)

text \<open>
  C2.  For a file that exists, has no row wider than the 29 names, and a row limit that is
  absent or not negative, the loader returns a table with the 29 names in order (the
  label, the 21 low-level and the 7 high-level names), applied by position.  With K rows
  in the file, the table has K rows when there is no limit or the limit is at least K, and
  M rows when the limit M is below K.
\<close>

theorem load_data_rows_and_columns:
  assumes "fs file_path = Some csv"
    and "\<forall>r\<in>set csv. length r \<le> 29"
    and "case nrows of None \<Rightarrow> True | Some m \<Rightarrow> 0 \<le> m"
  shows "\<exists>s' df. load_data E fs file_path nrows s = (s', Inr df) \<and>
           columns df = ''label'' # low_level @ high_level \<and>
           length low_level = 21 \<and> length high_level = 7 \<and> n_columns df = 29 \<and>
           (case nrows of
              None \<Rightarrow> len df = length csv
            | Some m \<Rightarrow> (int (length csv) \<le> m \<longrightarrow> len df = length csv) \<and>
                        (m < int (length csv) \<longrightarrow> int (len df) = m)) \<and>
           rows df = map (pad_row 29) (case nrows of None \<Rightarrow> csv | Some m \<Rightarrow> take (nat m) csv)"
proof -
  let ?recs = "case nrows of None \<Rightarrow> csv | Some m \<Rightarrow> take (nat m) csv"
  have rd: "read_csv E csv higgs_columns nrows = parse_rows E higgs_columns ?recs"
    using assms(3) by (simp add: read_csv_def split: option.splits)
  have "\<forall>r\<in>set ?recs. length r \<le> length higgs_columns"
    using assms(2) by (auto simp: length_higgs_columns split: option.splits dest: in_set_takeD)
  from parse_rows_ok [OF this, of E] obtain df where
    df: "parse_rows E higgs_columns ?recs = Inr df" "columns df = higgs_columns"
      "rows df = map (pad_row (length higgs_columns)) ?recs"
    by blast
  have ld: "load_data E fs file_path nrows s =
           (s\<lparr>trace := trace s @ [LoadingFrom file_path, ReadCsv file_path,
                                   LoaderLoaded (len df) (n_columns df), Head (take 10 (rows df))]\<rparr>,
            Inr df)"
    using load_data_found [where fs = fs and file_path = file_path and csv = csv
        and E = E and nrows = nrows and df = df and s = s] assms(1) rd df(1)
    by simp
  have cols: "columns df = ''label'' # low_level @ high_level"
    using df(2) by (simp add: higgs_columns_def)
  have ncols: "n_columns df = 29"
    using df(2) by (simp add: n_columns_def length_higgs_columns)
  have rws: "rows df = map (pad_row 29) ?recs"
    using df(3) by (simp add: length_higgs_columns)
  have cnt: "case nrows of
              None \<Rightarrow> len df = length csv
            | Some m \<Rightarrow> (int (length csv) \<le> m \<longrightarrow> len df = length csv) \<and>
                        (m < int (length csv) \<longrightarrow> int (len df) = m)"
    using assms(3) rws by (auto simp: len_def split: option.splits)
  show ?thesis
    using ld cols ncols rws cnt length_low_level length_high_level by blast
qed

text \<open>
  A file of three rows read with limit 2, with limit 5 and without limit.
\<close>

theorem load_data_rows_and_columns_witness:
  "one_file_system ''HIGGS.csv.gz'' = Some three_row_file \<and>
   list_all (\<lambda>r. length r \<le> 29) three_row_file \<and>
   (\<exists>s' df. load_data quiet_env one_file_system ''HIGGS.csv.gz'' (Some 2) start = (s', Inr df) \<and>
      n_columns df = 29 \<and> int (len df) = 2) \<and>
   (\<exists>s' df. load_data quiet_env one_file_system ''HIGGS.csv.gz'' (Some 5) start = (s', Inr df) \<and>
      n_columns df = 29 \<and> len df = 3) \<and>
   (\<exists>s' df. load_data quiet_env one_file_system ''HIGGS.csv.gz'' None start = (s', Inr df) \<and>
      n_columns df = 29 \<and> len df = 3)"
proof -
  have f: "one_file_system ''HIGGS.csv.gz'' = Some three_row_file"
    by (simp add: one_file_system_def)
  have w: "\<forall>r\<in>set three_row_file. length r \<le> 29"
    by (simp add: three_row_file_def)
  have l: "length three_row_file = 3"
    by (simp add: three_row_file_def)
  have w': "list_all (\<lambda>r. length r \<le> 29) three_row_file"
    by (simp add: three_row_file_def)
  show ?thesis
    using f w w'
      load_data_rows_and_columns [where fs = one_file_system and file_path = "''HIGGS.csv.gz''"
        and csv = three_row_file and nrows = "Some 2" and E = quiet_env and s = start]
      load_data_rows_and_columns [where fs = one_file_system and file_path = "''HIGGS.csv.gz''"
        and csv = three_row_file and nrows = "Some 5" and E = quiet_env and s = start]
      load_data_rows_and_columns [where fs = one_file_system and file_path = "''HIGGS.csv.gz''"
        and csv = three_row_file and nrows = None and E = quiet_env and s = start]
    by (simp add: l) blast
qed

text \<open>
  C3.  For a path that is not on the file system the loader raises FileNotFoundError and
  leaves the state as it was: nothing is printed and nothing is read.  When the default
  path is missing, \<^verbatim>\<open>perform_eda\<close> prints the error and the traceback and returns; no
  file has been written.
\<close>

theorem missing_file_stops_run:
  "(fs file_path = None \<longrightarrow>
      load_data E fs file_path nrows s = (s, Inl (FileNotFoundError file_path))) \<and>
   (fs default_path = None \<longrightarrow>
      perform_eda E fs n s =
        (s\<lparr>trace := trace s @ [Loading n,
                                Err ''Could not load dataset:'' (FileNotFoundError default_path),
                                Traceback (FileNotFoundError default_path)]\<rparr>,
         Inr ()) \<and>
      artifacts (fst (perform_eda E fs n s)) = artifacts s)"
  by (simp add: load_data_def perform_eda_def throw_def bind_def print_def)

text \<open>
  The run on a file system without any file.
\<close>

theorem missing_file_stops_run_witness:
  "empty_file_system default_path = None \<and>
   load_data quiet_env empty_file_system default_path (Some 500000) start =
     (start, Inl (FileNotFoundError default_path)) \<and>
   perform_eda quiet_env empty_file_system 500000 start =
     (start\<lparr>trace := [Loading 500000,
                       Err ''Could not load dataset:'' (FileNotFoundError default_path),
                       Traceback (FileNotFoundError default_path)]\<rparr>,
      Inr ()) \<and>
   artifacts (fst (perform_eda quiet_env empty_file_system 500000 start)) = []"
  using missing_file_stops_run [of empty_file_system default_path quiet_env "Some 500000" start 500000]
  by (simp add: empty_file_system_def start_def)





section \<open>Sampling, correlation with the target, summary\<close>

text \<open>
  C6, as the code has it.  For a table with R rows the KDE step asks for a sample of
  min(20000, max(2000, R div 50)) rows, the pairplot step for min(5000, that size); the
  scatter step asks for min(15000, that size) when \<open>lepton_pT\<close> and
  \<open>missing_energy_magnitude\<close> are both columns, and draws no sample otherwise.  Every
  call passes the seed 42.
\<close>

theorem sample_sizes:
  assumes "''label'' \<in> set (columns df)" and "prelude_ok E"
  shows "sample_calls (trace (fst (eda_report E df start))) =
           [(min 20000 (max 2000 (len df div 50)), Some 42),
            (min 5000 (min 20000 (max 2000 (len df div 50))), Some 42)]
           @ (if ''lepton_pT'' \<in> set (columns df) \<and> ''missing_energy_magnitude'' \<in> set (columns df)
              then [(min 15000 (min 20000 (max 2000 (len df div 50))), Some 42)] else [])"
  using report_sample_calls [OF assms] by (simp add: kde_sample_n_def both_named_def)

lemma label_big: "''label'' \<in> set (columns big_table)"
  by (simp add: big_table_def)

lemma len_big: "len big_table = 2000"
  by (simp add: big_table_def len_def)

lemma prelude_quiet: "prelude_ok quiet_env"
  by (simp add: prelude_ok_def quiet_env_def)

lemma prelude_other: "prelude_ok other_env"
  by (simp add: prelude_ok_def other_env_def quiet_env_def)


text \<open>
  A table of 2000 rows with both named columns: three calls of size 2000.
\<close>

theorem sample_sizes_witness:
  "''label'' \<in> set (columns big_table) \<and> prelude_ok quiet_env \<and>
   sample_calls (trace (fst (eda_report quiet_env big_table start))) =
     [(2000, Some 42), (2000, Some 42), (2000, Some 42)]"
  using sample_sizes [OF label_big prelude_quiet] label_big prelude_quiet
  by (simp add: len_big) (simp add: big_table_def)

text \<open>
  C6 as stated fails: on a table with a \<open>label\<close> column only there are two sampling
  calls in the run, and the scatter step leaves the state as it finds it: it draws no
  sample.
\<close>

theorem scatter_not_sampled_counterexample:
  "''label'' \<in> set (columns label_only_table) \<and>
   sample_calls (trace (fst (eda_report quiet_env label_only_table start))) =
     [(2000, Some 42), (2000, Some 42)] \<and>
   run_step quiet_env label_only_table (select_features label_only_table) Scatter start =
     (start, Inr ())"
proof -
  have l: "''label'' \<in> set (columns label_only_table)"
    by (simp add: label_only_table_def)
  have a: "sample_calls (trace (fst (eda_report quiet_env label_only_table start))) =
     [(2000, Some 42), (2000, Some 42)]"
    using report_sample_calls [OF l prelude_quiet]
    by (simp add: kde_sample_n_def both_named_def len_def label_only_table_def)
  have b: "run_step quiet_env label_only_table (select_features label_only_table) Scatter start =
     (start, Inr ())"
    by (simp add: run_step_def try_except_def pure_def label_only_table_def)
  show ?thesis using l a b by blast
qed

text \<open>
  C9.  Two runs over the same table, in environments that share nothing but pandas'
  generator (the global generator state and the failures of library calls may differ),
  make the same sampling calls and draw the same rows in each of them.
\<close>

theorem sampling_deterministic:
  assumes "''label'' \<in> set (columns df)" and "prelude_ok E1" and "prelude_ok E2"
    and "rand_choice E1 = rand_choice E2"
  shows "sample_calls (trace (fst (eda_report E1 df start))) =
           sample_calls (trace (fst (eda_report E2 df start))) \<and>
         sampled_rows (trace (fst (eda_report E1 df start))) =
           sampled_rows (trace (fst (eda_report E2 df start)))"
  using report_sample_calls [OF assms(1,2)] report_sample_calls [OF assms(1,3)]
    report_sampled_rows [OF assms(1,2)] report_sampled_rows [OF assms(1,3)] assms(4)
  by (simp add: draw_def)

text \<open>
  Two environments with different global generator states, in one of which the
  histograms fail, on a table of 2000 rows.
\<close>

theorem sampling_deterministic_witness:
  "global_rng quiet_env \<noteq> global_rng other_env \<and>
   raises quiet_env (Within Histograms Draw) \<noteq> raises other_env (Within Histograms Draw) \<and>
   sample_calls (trace (fst (eda_report quiet_env big_table start))) =
     sample_calls (trace (fst (eda_report other_env big_table start))) \<and>
   sampled_rows (trace (fst (eda_report quiet_env big_table start))) =
     sampled_rows (trace (fst (eda_report other_env big_table start)))"
proof -
  have r: "rand_choice quiet_env = rand_choice other_env"
    by (simp add: other_env_def)
  show ?thesis
    using sampling_deterministic [OF label_big prelude_quiet prelude_other r]
    by (simp add: other_env_def quiet_env_def)
qed

lemma mset_numbered:
  "image_mset (\<lambda>(k, v). (k, Some v)) (mset (numbered ser)) + mset (filter (\<lambda>(k, v). v = None) ser)
     = mset ser"
  by (induction ser) (auto simp: numbered_def split: option.splits)

lemma mset_sort_values_desc: "mset (sort_values_desc ser) = mset ser"
  using mset_numbered [of ser] by (simp add: sort_values_desc_def)

lemma nan_tail:
  "map snd (filter (\<lambda>(k, v). v = None) ser) =
     replicate (length (filter (\<lambda>(k, v). v = None) ser)) None"
  by (induction ser) auto

lemma sorted_negated: "sorted (map (\<lambda>x. - x) zs) \<Longrightarrow> sorted (rev (zs :: real list))"
  by (induction zs) (auto simp: sorted_append)

lemma sorted_desc_numbers:
  "sorted (rev (map snd (sort_key (\<lambda>(k, v). - v) (ys :: (string \<times> real) list))))"
proof -
  have eq: "(\<lambda>(k :: string, v :: real). - v) = (\<lambda>p. - snd p)"
    by auto
  have "sorted (map (\<lambda>p. - snd p) (sort_key (\<lambda>p. - snd p) ys))"
    by (rule sorted_sort_key)
  then have "sorted (map (\<lambda>x. - x) (map snd (sort_key (\<lambda>p. - snd p) ys)))"
    by (simp add: comp_def)
  then have "sorted (rev (map snd (sort_key (\<lambda>p. - snd p) ys)))"
    by (rule sorted_negated)
  then show ?thesis by (simp only: eq)
qed

lemma sort_values_desc_shape:
  "\<exists>xs n. map snd (sort_values_desc ser) = map Some xs @ replicate n None \<and> sorted (rev xs)"
proof -
  let ?ys = "sort_key (\<lambda>(k, v). - v) (numbered ser)"
  define n where "n = length (filter (\<lambda>(k :: string, v :: real option). v = None) ser)"
  have n: "map snd (filter (\<lambda>(k, v). v = None) ser) = replicate n None"
    unfolding n_def by (rule nan_tail)
  have "map snd (sort_values_desc ser) = map Some (map snd ?ys) @ replicate n None"
    using n by (simp add: sort_values_desc_def comp_def case_prod_beta)
  moreover have "sorted (rev (map snd ?ys))"
    by (rule sorted_desc_numbers)
  ultimately show ?thesis by blast
qed

lemma label_dropped: "''label'' \<notin> fst ` set (label_corr col)"
proof -
  have "set (label_corr col) = set (drop_label col ''label'')"
    using mset_sort_values_desc [of "drop_label col ''label''"]
    by (metis label_corr_def set_mset_mset)
  then show ?thesis by (auto simp: drop_label_def)
qed

lemma corr_target_written:
  assumes "raises E (Within CorrelationMatrix Compute) = None"
    and "map_of (corr_value E df) ''label'' = Some col"
    and "raises E (Within CorrWithTarget Draw) = None"
    and "raises E (Within CorrWithTarget ToCsv) = None"
  shows "(out_file ''5_corr_with_target.csv'', SeriesFile (label_corr col))
           \<in> set (artifacts (alone E df fs CorrWithTarget))"
  using assms
  by (auto simp: alone_def entry_def run_step_def prims split: option.splits)

lemma in_report_artifacts:
  assumes "''label'' \<in> set (columns df)" "prelude_ok E"
    and "x \<in> set (artifacts (alone E df (select_features df) t))"
  shows "x \<in> set (artifacts (fst (eda_report E df start)))"
  using assms(3) all_steps_guarded [of t]
  by (simp add: report_artifacts [OF assms(1,2)]) blast

text \<open>
  C7.  When the correlation matrix is computed and has a \<open>label\<close> column, and the
  drawing and the writing of the correlation-with-target step complete, the CSV it writes
  holds the entries of that column without the entry named \<open>label\<close>, nothing added or
  lost, with the numbers in descending order and the NaN entries after them.
\<close>

theorem corr_with_target_sorted:
  assumes "''label'' \<in> set (columns df)" and "prelude_ok E"
    and "raises E (Within CorrelationMatrix Compute) = None"
    and "map_of (corr_value E df) ''label'' = Some col"
    and "raises E (Within CorrWithTarget Draw) = None"
    and "raises E (Within CorrWithTarget ToCsv) = None"
  shows "\<exists>out. (out_file ''5_corr_with_target.csv'', SeriesFile out)
                  \<in> set (artifacts (fst (eda_report E df start))) \<and>
               ''label'' \<notin> fst ` set out \<and>
               mset out = mset (filter (\<lambda>(k, v). k \<noteq> ''label'') col) \<and>
               (\<exists>xs n. map snd out = map Some xs @ replicate n None \<and> sorted (rev xs))"
proof -
  let ?out = "label_corr col"
  have "(out_file ''5_corr_with_target.csv'', SeriesFile ?out)
          \<in> set (artifacts (fst (eda_report E df start)))"
    using in_report_artifacts [OF assms(1,2) corr_target_written [OF assms(3-6)]] .
  moreover have "''label'' \<notin> fst ` set ?out"
    by (rule label_dropped)
  moreover have "mset ?out = mset (filter (\<lambda>(k, v). k \<noteq> ''label'') col)"
    by (simp add: label_corr_def mset_sort_values_desc drop_label_def)
  moreover have "\<exists>xs n. map snd ?out = map Some xs @ replicate n None \<and> sorted (rev xs)"
    unfolding label_corr_def by (rule sort_values_desc_shape)
  ultimately show ?thesis by blast
qed

lemma example_label_corr:
  "label_corr [(''label'', Some 1), (''lepton_pT'', Some (1/5)), (''lepton_eta'', None),
               (''m_jj'', Some (1/2)), (''m_bb'', Some (-1))] =
     [(''m_jj'', Some (1/2)), (''lepton_pT'', Some (1/5)), (''m_bb'', Some (-1)),
      (''lepton_eta'', None)]"
  by (simp add: label_corr_def drop_label_def sort_values_desc_def numbered_def)

lemma label_two_rows: "''label'' \<in> set (columns two_row_table)"
  by (simp add: two_row_table_def)

text \<open>
  A label column with five entries, one of them NaN.
\<close>

theorem corr_with_target_sorted_witness:
  "map_of (corr_value quiet_env two_row_table) ''label'' =
     Some [(''label'', Some 1), (''lepton_pT'', Some (1/5)), (''lepton_eta'', None),
           (''m_jj'', Some (1/2)), (''m_bb'', Some (-1))] \<and>
   label_corr [(''label'', Some 1), (''lepton_pT'', Some (1/5)), (''lepton_eta'', None),
               (''m_jj'', Some (1/2)), (''m_bb'', Some (-1))] =
     [(''m_jj'', Some (1/2)), (''lepton_pT'', Some (1/5)), (''m_bb'', Some (-1)),
      (''lepton_eta'', None)] \<and>
   (\<exists>out. (out_file ''5_corr_with_target.csv'', SeriesFile out)
             \<in> set (artifacts (fst (eda_report quiet_env two_row_table start))) \<and>
          ''label'' \<notin> fst ` set out \<and>
          (\<exists>xs n. map snd out = map Some xs @ replicate n None \<and> sorted (rev xs)))"
proof -
  have m: "map_of (corr_value quiet_env two_row_table) ''label'' =
     Some [(''label'', Some 1), (''lepton_pT'', Some (1/5)), (''lepton_eta'', None),
           (''m_jj'', Some (1/2)), (''m_bb'', Some (-1))]"
    by (simp add: quiet_env_def example_matrix_def)
  have q: "raises quiet_env (Within CorrelationMatrix Compute) = None"
    "raises quiet_env (Within CorrWithTarget Draw) = None"
    "raises quiet_env (Within CorrWithTarget ToCsv) = None"
    by (simp_all add: quiet_env_def)
  show ?thesis
    using corr_with_target_sorted [OF label_two_rows prelude_quiet q(1) m q(2) q(3)]
      m example_label_corr
    by blast
qed

lemma index_of_in_set: "index_of x xs = Some i \<Longrightarrow> x \<in> set xs"
  by (induction xs arbitrary: i) (auto split: if_splits)

lemma getitem_label:
  assumes "getitem df name = Inr cs"
  shows "name \<in> set (columns df)" and "length cs = len df"
  using assms
  by (auto simp: getitem_def len_def split: option.splits dest: index_of_in_set)

lemma binary_sum:
  assumes "\<forall>c\<in>set cs. c = Num 0 \<or> c = Num 1"
  shows "sum_list (map cell_value cs) = real (length (filter (\<lambda>c. c = Num 1) cs))"
    and "length (filter (\<lambda>c. c = Num 1) cs) + count_zero cs = length cs"
    and "\<not> list_ex is_text cs"
  using assms
  by (induction cs) (auto simp: cell_value_def count_zero_def is_text_def)

lemma binary_sum_int:
  assumes "\<forall>c\<in>set cs. c = Num 0 \<or> c = Num 1"
  shows "\<exists>p. sum_int E cs = Inr p \<and> p + int (count_zero cs) = int (length cs)"
proof -
  let ?ones = "length (filter (\<lambda>c. c = Num 1) cs)"
  have "sum_int E cs = Inr (py_int (real ?ones))"
    using binary_sum(1,3) [OF assms] by (simp add: sum_int_def)
  moreover have "py_int (real ?ones) = int ?ones"
    by (simp add: py_int_def)
  moreover have "int ?ones + int (count_zero cs) = int (length cs)"
    using binary_sum(2) [OF assms] by linarith
  ultimately show ?thesis by simp
qed

lemma summary_written:
  assumes "getitem df ''label'' = Inr labels" and "sum_int E labels = Inr p"
    and "raises E (Within SummaryOverview ToCsv) = None"
  shows "(out_file ''12_summary_overview.csv'',
          SummaryFile (len df) (n_columns df) p (count_zero labels))
           \<in> set (artifacts (alone E df fs SummaryOverview))"
  using assms
  by (auto simp: alone_def entry_def run_step_def prims split: option.splits)

text \<open>
  C8, as the code has it.  For a table whose \<open>label\<close> entries are all 0 or 1, and
  the summary written, the positive count (the sum of the column) and the negative count
  (the number of entries equal to 0) add up to the number of rows.
\<close>

theorem summary_counts_add_up:
  assumes "prelude_ok E" and "getitem df ''label'' = Inr labels"
    and "\<forall>c\<in>set labels. c = Num 0 \<or> c = Num 1"
    and "raises E (Within SummaryOverview ToCsv) = None"
  shows "\<exists>p n. (out_file ''12_summary_overview.csv'', SummaryFile (len df) (n_columns df) p n)
                  \<in> set (artifacts (fst (eda_report E df start))) \<and>
               p + int n = int (len df)"
proof -
  obtain p where p: "sum_int E labels = Inr p" "p + int (count_zero labels) = int (length labels)"
    using binary_sum_int [OF assms(3)] by blast
  have l: "''label'' \<in> set (columns df)" "length labels = len df"
    using getitem_label [OF assms(2)] by simp_all
  have "(out_file ''12_summary_overview.csv'',
          SummaryFile (len df) (n_columns df) p (count_zero labels))
           \<in> set (artifacts (fst (eda_report E df start)))"
    using in_report_artifacts [OF l(1) assms(1) summary_written [OF assms(2) p(1) assms(4)]] .
  then show ?thesis using p(2) l(2) by auto
qed

lemma two_row_shape: "len two_row_table = 2" "n_columns two_row_table = 2"
  by (simp_all add: len_def n_columns_def two_row_table_def)

lemma two_row_labels: "getitem two_row_table ''label'' = Inr [Num 1, Num 0]"
  by (simp add: getitem_def two_row_table_def cell_at_def)

text \<open>The scenario of the specification: rows 2, positive 1, negative 1.\<close>

lemma scenario_summary:
  "(out_file ''12_summary_overview.csv'', SummaryFile 2 2 1 1)
     \<in> set (artifacts (fst (eda_report quiet_env two_row_table start)))"
proof -
  have s: "sum_int quiet_env [Num 1, Num 0] = Inr 1"
    by (simp add: sum_int_def is_text_def cell_value_def py_int_def)
  have q: "raises quiet_env (Within SummaryOverview ToCsv) = None"
    by (simp add: quiet_env_def)
  show ?thesis
    using in_report_artifacts [OF label_two_rows prelude_quiet
        summary_written [OF two_row_labels s q]]
    by (simp add: two_row_shape count_zero_def)
qed

text \<open>
  The scenario: labels 1 and 0.
\<close>

theorem summary_counts_add_up_witness:
  "getitem two_row_table ''label'' = Inr [Num 1, Num 0] \<and>
   (\<exists>p n. (out_file ''12_summary_overview.csv'', SummaryFile 2 2 p n)
             \<in> set (artifacts (fst (eda_report quiet_env two_row_table start))) \<and>
          p + int n = 2)"
proof -
  have b: "\<forall>c\<in>set [Num 1, Num 0]. c = Num 0 \<or> c = Num 1"
    by simp
  have q: "raises quiet_env (Within SummaryOverview ToCsv) = None"
    by (simp add: quiet_env_def)
  show ?thesis
    using summary_counts_add_up [OF prelude_quiet two_row_labels b q] two_row_labels
    by (simp add: two_row_shape)
qed

text \<open>
  C8 as stated fails: a table with the single label 2 has one row, positive count 2 and
  negative count 0.
\<close>

theorem label_two_counterexample:
  "''label'' \<in> set (columns label_two_table) \<and> len label_two_table = 1 \<and>
   (out_file ''12_summary_overview.csv'', SummaryFile 1 1 2 0)
     \<in> set (artifacts (fst (eda_report quiet_env label_two_table start))) \<and>
   (2 :: int) + int 0 \<noteq> int 1"
proof -
  have l: "''label'' \<in> set (columns label_two_table)"
    by (simp add: label_two_table_def)
  have g: "getitem label_two_table ''label'' = Inr [Num 2]"
    by (simp add: getitem_def label_two_table_def cell_at_def)
  have s: "sum_int quiet_env [Num 2] = Inr 2"
    by (simp add: sum_int_def is_text_def cell_value_def py_int_def)
  have q: "raises quiet_env (Within SummaryOverview ToCsv) = None"
    by (simp add: quiet_env_def)
  have n: "len label_two_table = 1" "n_columns label_two_table = 1"
    by (simp_all add: len_def n_columns_def label_two_table_def)
  show ?thesis
    using in_report_artifacts [OF l prelude_quiet summary_written [OF g s q]] l
    by (simp add: n count_zero_def)
qed

section \<open>Isolation of the guarded steps\<close>






















section \<open>Tables smaller than the sample\<close>












end
